theory Spec2Isabelle
  imports Main
begin

section \<open>Result codes and their labels\<close>

text \<open>
  The demo program \<^verbatim>\<open>main.cpp\<close> turns the integer codes that the tracking module
  reports into printable labels. A C++ \<^verbatim>\<open>int\<close> is modelled as an \<^typ>\<open>int\<close>: the
  two functions only compare their argument with constants, so no arithmetic can
  overflow. A \<^verbatim>\<open>std::string\<close> is a \<^typ>\<open>string\<close>, that is a list of bytes; the
  Chinese labels of the source are written as their UTF-8 bytes, which is how the
  source file stores them.
\<close>

text \<open>The initial value of \<^verbatim>\<open>result_str\<close> in \<^verbatim>\<open>GetGestureResult\<close> ("unknown gesture").\<close>

definition unknown_gesture :: string where
  "unknown_gesture =
     [CHR 0xE6, CHR 0x9C, CHR 0xAA, CHR 0xE7, CHR 0x9F, CHR 0xA5,
      CHR 0xE6, CHR 0x89, CHR 0x8B, CHR 0xE5, CHR 0x8A, CHR 0xBF]"

text \<open>The initial value of \<^verbatim>\<open>result_str\<close> in \<^verbatim>\<open>GetArmUpAndDownResult\<close> ("unknown").\<close>

definition unknown_arm :: string where
  "unknown_arm = [CHR 0xE6, CHR 0x9C, CHR 0xAA, CHR 0xE7, CHR 0x9F, CHR 0xA5]"

text \<open>The label of \<^verbatim>\<open>case 1\<close> in \<^verbatim>\<open>GetArmUpAndDownResult\<close> ("arm raised").\<close>

definition arm_raised :: string where
  "arm_raised =
     [CHR 0xE6, CHR 0x89, CHR 0x8B, CHR 0xE8, CHR 0x87, CHR 0x82,
      CHR 0xE6, CHR 0x8A, CHR 0xAC, CHR 0xE8, CHR 0xB5, CHR 0xB7]"

text \<open>The label of \<^verbatim>\<open>case 2\<close> in \<^verbatim>\<open>GetArmUpAndDownResult\<close> ("arm lowered").\<close>

definition arm_lowered :: string where
  "arm_lowered =
     [CHR 0xE6, CHR 0x89, CHR 0x8B, CHR 0xE8, CHR 0x87, CHR 0x82,
      CHR 0xE6, CHR 0x94, CHR 0xBE, CHR 0xE4, CHR 0xB8, CHR 0x8B]"

text \<open>
  \<^verbatim>\<open>std::string GetGestureResult(int result)\<close>: the variable starts as the unknown
  label and the \<^verbatim>\<open>switch\<close> overwrites it in the cases 1 to 9; \<^verbatim>\<open>default\<close> leaves it.
\<close>

definition GetGestureResult :: "int \<Rightarrow> string" where
  "GetGestureResult result =
     (let result_str = unknown_gesture in
      if result = 1 then ''One''
      else if result = 2 then ''Two''
      else if result = 3 then ''Three''
      else if result = 4 then ''Four''
      else if result = 5 then ''Five''
      else if result = 6 then ''Six''
      else if result = 7 then ''ThumbUp''
      else if result = 8 then ''Ok''
      else if result = 9 then ''Fist''
      else result_str)"

text \<open>
  \<^verbatim>\<open>std::string GetArmUpAndDownResult(int result)\<close>: the cases of the \<^verbatim>\<open>switch\<close> are
  -1, 1 and 2, in this order; the case -1 assigns the unknown label again.
\<close>

definition GetArmUpAndDownResult :: "int \<Rightarrow> string" where
  "GetArmUpAndDownResult result =
     (let result_str = unknown_arm in
      if result = - 1 then unknown_arm
      else if result = 1 then arm_raised
      else if result = 2 then arm_lowered
      else result_str)"

section \<open>The keypoint buffer and the two callbacks\<close>

text \<open>
  \<^verbatim>\<open>cv::Point\<close>: a pixel position with two \<^verbatim>\<open>int\<close> coordinates.
\<close>

datatype Point = Point int int

text \<open>
  \<^verbatim>\<open>PoseInfo\<close> is declared in \<^verbatim>\<open>MediapipeHandTrackingDll.h\<close>, which is not part of
  the sources at hand; \<^verbatim>\<open>main.cpp\<close> reads its members \<^verbatim>\<open>x\<close> and \<^verbatim>\<open>y\<close> and
  passes them to the constructor of \<^verbatim>\<open>cv::Point\<close>. The type \<open>'f\<close> of the two
  members and the conversion \<open>cvt\<close> from it to \<^verbatim>\<open>int\<close> are parameters of the model.
\<close>

datatype 'f PoseInfo = PoseInfo (info_x: 'f) (info_y: 'f)

text \<open>
  The two globals of \<^verbatim>\<open>main.cpp\<close>: \<^verbatim>\<open>std::vector<cv::Point> handKPs(42)\<close> and
  \<^verbatim>\<open>int gValidKpCount = 21\<close>.
\<close>

record globals =
  handKPs :: "Point list"
  gValidKpCount :: int

definition initial_globals :: globals where
  "initial_globals = \<lparr>handKPs = replicate 42 (Point 0 0), gValidKpCount = 21\<rparr>"

text \<open>
  What C++ leaves undefined is a value of the model: an access to \<^verbatim>\<open>handKPs\<close>
  outside the vector, a read of the callback's argument array beyond the elements the
  caller passed, and the overflow of the \<^verbatim>\<open>int\<close> frame counter.
\<close>

datatype fault = KpOutOfRange int | ArgOutOfRange int | IntOverflow

text \<open>\<^verbatim>\<open>handKPs[i]\<close> as the target of an assignment.\<close>

definition kp_store :: "Point list \<Rightarrow> int \<Rightarrow> Point \<Rightarrow> fault + Point list" where
  "kp_store kps i p =
     (if 0 \<le> i \<and> i < int (length kps) then Inr (kps[nat i := p]) else Inl (KpOutOfRange i))"

text \<open>\<^verbatim>\<open>handKPs[i]\<close> as a value.\<close>

definition kp_at :: "Point list \<Rightarrow> int \<Rightarrow> fault + Point" where
  "kp_at kps i =
     (if 0 \<le> i \<and> i < int (length kps) then Inr (kps ! nat i) else Inl (KpOutOfRange i))"

text \<open>
  \<^verbatim>\<open>infos[i]\<close> and \<^verbatim>\<open>recogn_result[i]\<close>: the pointer argument of a callback is the
  list of the elements the caller passed.
\<close>

definition arg_at :: "'a list \<Rightarrow> int \<Rightarrow> fault + 'a" where
  "arg_at xs i =
     (if 0 \<le> i \<and> i < int (length xs) then Inr (xs ! nat i) else Inl (ArgOutOfRange i))"

text \<open>\<^verbatim>\<open>cv::Point(infos[i].x, infos[i].y)\<close>.\<close>

definition to_point :: "('f \<Rightarrow> int) \<Rightarrow> 'f PoseInfo \<Rightarrow> Point" where
  "to_point cvt info = Point (cvt (info_x info)) (cvt (info_y info))"

text \<open>
  The loop of \<^verbatim>\<open>LandmarksCallBackImpl\<close>,
  \<^verbatim>\<open>for (int i = 0; i < count; ++i) { if (i < 42) { handKPs[i] = ...; } }\<close>,
  from the value \<open>i\<close> of its counter on. The counter stays below \<open>count\<close>, so
  \<^verbatim>\<open>++i\<close> cannot overflow.
\<close>

function landmarks_loop ::
  "('f \<Rightarrow> int) \<Rightarrow> 'f PoseInfo list \<Rightarrow> int \<Rightarrow> int \<Rightarrow> Point list \<Rightarrow> fault + Point list" where
  "landmarks_loop cvt infos count i kps =
     (if i < count then
        (if i < 42 then
           (case arg_at infos i of
              Inl e \<Rightarrow> Inl e
            | Inr info \<Rightarrow>
                (case kp_store kps i (to_point cvt info) of
                   Inl e \<Rightarrow> Inl e
                 | Inr kps' \<Rightarrow> landmarks_loop cvt infos count (i + 1) kps'))
         else landmarks_loop cvt infos count (i + 1) kps)
      else Inr kps)"
  by pat_completeness auto
termination
  by (relation "measure (\<lambda>(cvt, infos, count, i, kps). nat (count - i))") auto

declare landmarks_loop.simps [simp del]

text \<open>
  \<^verbatim>\<open>void LandmarksCallBackImpl(int image_index, PoseInfo* infos, int count)\<close>.
  The two lines it prints to \<^verbatim>\<open>std::cout\<close> are not modelled.
\<close>

definition LandmarksCallBackImpl ::
  "('f \<Rightarrow> int) \<Rightarrow> int \<Rightarrow> 'f PoseInfo list \<Rightarrow> int \<Rightarrow> globals \<Rightarrow> fault + globals" where
  "LandmarksCallBackImpl cvt image_index infos count g =
     (let g1 = g\<lparr>gValidKpCount := count\<rparr>;
          g2 = (if gValidKpCount g1 > 42 then g1\<lparr>gValidKpCount := 42\<rparr> else g1)
      in case landmarks_loop cvt infos count 0 (handKPs g2) of
           Inl e \<Rightarrow> Inl e
         | Inr kps \<Rightarrow> Inr (g2\<lparr>handKPs := kps\<rparr>))"

text \<open>
  The loop of \<^verbatim>\<open>GestureResultCallBackImpl\<close>, which prints one label for each of the
  \<open>count\<close> codes; the model collects the labels.
\<close>

function gesture_loop :: "int list \<Rightarrow> int \<Rightarrow> int \<Rightarrow> string list \<Rightarrow> fault + string list" where
  "gesture_loop recogn_result count i printed =
     (if i < count then
        (case arg_at recogn_result i of
           Inl e \<Rightarrow> Inl e
         | Inr code \<Rightarrow>
             gesture_loop recogn_result count (i + 1) (printed @ [GetGestureResult code]))
      else Inr printed)"
  by pat_completeness auto
termination
  by (relation "measure (\<lambda>(recogn_result, count, i, printed). nat (count - i))") auto

declare gesture_loop.simps [simp del]

text \<open>\<^verbatim>\<open>void GestureResultCallBackImpl(int image_index, int* recogn_result, int count)\<close>.\<close>

definition GestureResultCallBackImpl :: "int \<Rightarrow> int list \<Rightarrow> int \<Rightarrow> fault + string list" where
  "GestureResultCallBackImpl image_index recogn_result count =
     gesture_loop recogn_result count 0 []"

section \<open>Drawing the keypoints\<close>

text \<open>
  The image that \<^verbatim>\<open>DrawHandKeyponts\<close> draws on is modelled by the drawing commands
  applied to it, in order: \<^verbatim>\<open>cv::circle\<close> with its centre, radius, colour and
  thickness, and \<^verbatim>\<open>cv::line\<close> with its two end points, colour and thickness.
\<close>

datatype drawing =
    Circle Point int "int \<times> int \<times> int" int
  | Line Point Point "int \<times> int \<times> int" int

text \<open>
  \<^verbatim>\<open>int handCount = gValidKpCount / 21\<close>: the division of C++ truncates towards zero.
\<close>

definition c_div :: "int \<Rightarrow> int \<Rightarrow> int" where
  "c_div a b =
     (if (a < 0) = (b < 0) then \<bar>a\<bar> div \<bar>b\<bar> else - (\<bar>a\<bar> div \<bar>b\<bar>))"

text \<open>
  The first loop:
  \<^verbatim>\<open>for (int i = 0; i < gValidKpCount; i++) cv::circle(srcImage, handKPs[i], 6, cv::Scalar(0, 0, 255), -1);\<close>
\<close>

function draw_circles :: "Point list \<Rightarrow> int \<Rightarrow> int \<Rightarrow> drawing list \<Rightarrow> fault + drawing list" where
  "draw_circles kps n i img =
     (if i < n then
        (case kp_at kps i of
           Inl e \<Rightarrow> Inl e
         | Inr p \<Rightarrow> draw_circles kps n (i + 1) (img @ [Circle p 6 (0, 0, 255) (- 1)]))
      else Inr img)"
  by pat_completeness auto
termination
  by (relation "measure (\<lambda>(kps, n, i, img). nat (n - i))") auto

declare draw_circles.simps [simp del]

text \<open>
  The 21 \<^verbatim>\<open>cv::line\<close> statements of the second loop's body, in the order of the
  source: the statement for the pair \<open>(a, b)\<close> is
  \<^verbatim>\<open>cv::line(srcImage, handKPs[offset + a], handKPs[offset + b], lnColor, lnThickness);\<close>
\<close>

definition hand_lines :: "(int \<times> int) list" where
  "hand_lines =
     [(0, 1), (1, 2), (2, 3), (3, 4),
      (0, 5), (5, 6), (6, 7), (7, 8),
      (9, 10), (10, 11), (11, 12),
      (13, 14), (14, 15), (15, 16),
      (0, 17), (17, 18), (18, 19), (19, 20),
      (5, 9), (9, 13), (13, 17)]"

text \<open>One \<^verbatim>\<open>cv::line\<close> statement, with \<^verbatim>\<open>lnColor(0, 255, 0)\<close> and \<^verbatim>\<open>lnThickness = 2\<close>.\<close>

definition draw_line ::
  "Point list \<Rightarrow> int \<Rightarrow> int \<times> int \<Rightarrow> drawing list \<Rightarrow> fault + drawing list" where
  "draw_line kps offset ab img =
     (case kp_at kps (offset + fst ab) of
        Inl e \<Rightarrow> Inl e
      | Inr p \<Rightarrow>
          (case kp_at kps (offset + snd ab) of
             Inl e \<Rightarrow> Inl e
           | Inr q \<Rightarrow> Inr (img @ [Line p q (0, 255, 0) 2])))"

text \<open>The statements of one pass through the body, executed one after the other.\<close>

fun draw_lines ::
  "Point list \<Rightarrow> int \<Rightarrow> (int \<times> int) list \<Rightarrow> drawing list \<Rightarrow> fault + drawing list" where
  "draw_lines kps offset [] img = Inr img"
| "draw_lines kps offset (ab # rest) img =
     (case draw_line kps offset ab img of
        Inl e \<Rightarrow> Inl e
      | Inr img' \<Rightarrow> draw_lines kps offset rest img')"

text \<open>
  The second loop:
  \<^verbatim>\<open>for (int i = 0; i < handCount; i++) { ...; offset += 21; }\<close>
\<close>

function draw_hands ::
  "Point list \<Rightarrow> int \<Rightarrow> int \<Rightarrow> int \<Rightarrow> drawing list \<Rightarrow> fault + drawing list" where
  "draw_hands kps handCount i offset img =
     (if i < handCount then
        (case draw_lines kps offset hand_lines img of
           Inl e \<Rightarrow> Inl e
         | Inr img' \<Rightarrow> draw_hands kps handCount (i + 1) (offset + 21) img')
      else Inr img)"
  by pat_completeness auto
termination
  by (relation "measure (\<lambda>(kps, handCount, i, offset, img). nat (handCount - i))") auto

declare draw_hands.simps [simp del]

text \<open>\<^verbatim>\<open>void DrawHandKeyponts(cv::Mat& srcImage)\<close>.\<close>

definition DrawHandKeyponts :: "globals \<Rightarrow> drawing list \<Rightarrow> fault + drawing list" where
  "DrawHandKeyponts g srcImage =
     (case draw_circles (handKPs g) (gValidKpCount g) 0 srcImage of
        Inl e \<Rightarrow> Inl e
      | Inr img \<Rightarrow>
          (let handCount = c_div (gValidKpCount g) 21;
               offset = 0
           in draw_hands (handKPs g) handCount 0 offset img))"

section \<open>The capture loop of \<^verbatim>\<open>HandTrackingDllTest\<close>\<close>

text \<open>
  The tracking module is a precompiled library that \<^verbatim>\<open>main.cpp\<close> reaches through
  function pointers, so it is a parameter of the model. A call of its
  \<^verbatim>\<open>Mediapipe_Hand_Tracking_Detect_Frame\<close> entry point takes the module's state, the
  frame index, the width, the height and the pixel data, and answers with the calls it
  makes to the two registered callbacks, in order, with its \<^verbatim>\<open>bool\<close> result and with
  its next state. The callbacks are taken to run before the entry point returns.
\<close>

datatype 'f callback =
    Landmarks int "'f PoseInfo list" int
  | GestureResult int "int list" int

type_synonym ('m, 'px, 'f) detect_frame =
  "'m \<Rightarrow> int \<Rightarrow> int \<Rightarrow> int \<Rightarrow> 'px \<Rightarrow> 'f callback list \<times> bool \<times> 'm"

text \<open>
  The callbacks that \<^verbatim>\<open>HandTrackingDllTest\<close> registers are \<^verbatim>\<open>LandmarksCallBackImpl\<close>
  and \<^verbatim>\<open>GestureResultCallBackImpl\<close>; the second one only prints.
\<close>

fun run_callbacks :: "('f \<Rightarrow> int) \<Rightarrow> 'f callback list \<Rightarrow> globals \<Rightarrow> fault + globals" where
  "run_callbacks cvt [] g = Inr g"
| "run_callbacks cvt (Landmarks image_index infos count # rest) g =
     (case LandmarksCallBackImpl cvt image_index infos count g of
        Inl e \<Rightarrow> Inl e
      | Inr g' \<Rightarrow> run_callbacks cvt rest g')"
| "run_callbacks cvt (GestureResult image_index recogn_result count # rest) g =
     (case GestureResultCallBackImpl image_index recogn_result count of
        Inl e \<Rightarrow> Inl e
      | Inr printed \<Rightarrow> run_callbacks cvt rest g)"

text \<open>
  What the camera and the keyboard answer in one pass through the loop: the result of
  \<^verbatim>\<open>cap.read(frame)\<close>, whether \<^verbatim>\<open>frame.empty()\<close>, the columns, rows and data of the
  copied frame, and the result of \<^verbatim>\<open>cv::waitKey(1)\<close>.
\<close>

record 'px camera_step =
  read_res :: bool
  frame_empty :: bool
  frame_cols :: int
  frame_rows :: int
  frame_data :: 'px
  wait_key :: int

text \<open>
  The state of the loop: the globals, the local \<^verbatim>\<open>image_index\<close>, the module's state,
  the arguments of the calls of \<^verbatim>\<open>m_Mediapipe_Hand_Tracking_Detect_Frame\<close> made so far,
  and what was drawn on each frame given to \<^verbatim>\<open>imshow\<close>.
\<close>

record ('m, 'px) loop_state =
  loop_globals :: globals
  image_index :: int
  module_state :: 'm
  detect_calls :: "(int \<times> int \<times> int \<times> 'px) list"
  shown :: "drawing list list"

text \<open>The largest value of the 32-bit \<^verbatim>\<open>int\<close> of the platform the library is built for.\<close>

definition INT_MAX :: int where
  "INT_MAX = 2147483647"

text \<open>
  \<^verbatim>\<open>while (1) { ... }\<close> of \<^verbatim>\<open>HandTrackingDllTest\<close>, one equation per pass. The loop
  ends at the first failed read, empty frame or pressed key; a camera that never fails
  with a user who never presses a key keeps the source in the loop for ever, and the
  model follows it for the passes that the list describes (its end stands for a read
  that delivers nothing). \<^verbatim>\<open>image_index += 1\<close> at \<^verbatim>\<open>INT_MAX\<close> is undefined in C++.
  The second component of the result is the fault that ended the run, if one did.
\<close>

fun capture_loop ::
  "('f \<Rightarrow> int) \<Rightarrow> ('m, 'px, 'f) detect_frame \<Rightarrow> 'px camera_step list \<Rightarrow>
     ('m, 'px) loop_state \<Rightarrow> ('m, 'px) loop_state \<times> fault option" where
  "capture_loop cvt detect [] s = (s, None)"
| "capture_loop cvt detect (c # rest) s =
     (if \<not> read_res c then (s, None)
      else if frame_empty c then (s, None)
      else
        (let g0 = (loop_globals s)\<lparr>gValidKpCount := 0\<rparr>;
             answer = detect (module_state s) (image_index s)
                        (frame_cols c) (frame_rows c) (frame_data c);
             s1 = s\<lparr>module_state := snd (snd answer),
                     detect_calls := detect_calls s @
                       [(image_index s, frame_cols c, frame_rows c, frame_data c)]\<rparr>
         in case run_callbacks cvt (fst answer) g0 of
              Inl e \<Rightarrow> (s1\<lparr>loop_globals := g0\<rparr>, Some e)
            | Inr g1 \<Rightarrow>
                (case (if fst (snd answer) \<and> gValidKpCount g1 > 0
                       then DrawHandKeyponts g1 [] else Inr []) of
                   Inl e \<Rightarrow> (s1\<lparr>loop_globals := g1\<rparr>, Some e)
                 | Inr frame \<Rightarrow>
                     (let s2 = s1\<lparr>loop_globals := g1, shown := shown s1 @ [frame]\<rparr>
                      in if wait_key c \<ge> 0 then (s2, None)
                         else if image_index s2 = INT_MAX then (s2, Some IntOverflow)
                         else capture_loop cvt detect rest
                                (s2\<lparr>image_index := image_index s2 + 1\<rparr>)))))"

text \<open>
  The loop as \<^verbatim>\<open>HandTrackingDllTest\<close> enters it: \<^verbatim>\<open>int image_index = 0\<close>, no call
  made and nothing shown yet, with the globals \<open>g\<close> and the module state \<open>m\<close> that the
  calls before the loop have left.
\<close>

definition HandTrackingDllTest_loop ::
  "('f \<Rightarrow> int) \<Rightarrow> ('m, 'px, 'f) detect_frame \<Rightarrow> 'px camera_step list \<Rightarrow> globals \<Rightarrow> 'm \<Rightarrow>
     ('m, 'px) loop_state \<times> fault option" where
  "HandTrackingDllTest_loop cvt detect camera g m =
     capture_loop cvt detect camera
       \<lparr>loop_globals = g, image_index = 0, module_state = m, detect_calls = [], shown = []\<rparr>"

text \<open>
  A module and a camera for a concrete run: the module reports two landmarks and one
  gesture code for every frame, and the user presses a key while the third frame is
  shown.
\<close>

definition example_detect :: "(nat, nat, int) detect_frame" where
  "example_detect m i w h d =
     ([Landmarks i [PoseInfo 3 4, PoseInfo 5 6] 2, GestureResult i [7] 1], True, Suc m)"

definition example_camera :: "nat camera_step list" where
  "example_camera =
     [\<lparr>read_res = True, frame_empty = False, frame_cols = 100, frame_rows = 100,
       frame_data = 0, wait_key = - 1\<rparr>,
      \<lparr>read_res = True, frame_empty = False, frame_cols = 100, frame_rows = 100,
       frame_data = 1, wait_key = - 1\<rparr>,
      \<lparr>read_res = True, frame_empty = False, frame_cols = 100, frame_rows = 100,
       frame_data = 2, wait_key = 27\<rparr>,
      \<lparr>read_res = True, frame_empty = False, frame_cols = 100, frame_rows = 100,
       frame_data = 3, wait_key = - 1\<rparr>]"

section \<open>The Module Loader of the specification\<close>

text \<open>
  \<^verbatim>\<open>main.cpp\<close> uses the class \<^verbatim>\<open>MediapipeHandTrackingDll\<close> (its methods
  \<^verbatim>\<open>LoadMediapipeHandTrackingDll\<close>, \<^verbatim>\<open>GetAllFunctions\<close>, \<^verbatim>\<open>UnLoadMediapipeHandTrackingDll\<close>
  and its function-pointer members), but the class itself is declared and defined in
  files that are not part of the sources at hand. This section models it from
  section 4.1 ("Module Loader") and section 7 ("Error handling design") of the
  specification. Where the specification leaves a case open, the text says so.
\<close>

text \<open>
  Modelled from the spec: the error taxonomy of section 7, of the loader class that is
  missing from the sources.
\<close>

datatype loader_error =
    ModuleNotFound
  | SymbolNotFound string
  | NotInitialized
  | AlreadyLoaded
  | RegistrationFailed
  | DetectionFailed
  | ReleaseFailed

text \<open>
  Modelled from the spec: the fixed export list that \<open>ResolveAll\<close> of the missing loader
  class resolves, under the symbolic names of section 4.1 for the hand-tracking module:
  "init, register-landmarks-callback, register-classification-callback, detect-frame,
  detect-frame-direct, detect-video, release".
\<close>

definition required_symbols :: "string list" where
  "required_symbols =
     [''init'', ''register-landmarks-callback'', ''register-classification-callback'',
      ''detect-frame'', ''detect-frame-direct'', ''detect-video'', ''release'']"

text \<open>
  Modelled from the spec: the native module as the missing loader class sees it, namely
  the names it exports and what its init, detect-frame and release entry points report
  ("returns success/failure as reported by the module; does not interpret the
  underlying reason"). The reports are functions of the arguments only: a module
  answers the same way each time it is loaded.
\<close>

record 'px native_module =
  exported :: "string list"
  init_reports :: "string \<Rightarrow> bool list \<Rightarrow> bool"
  detect_reports :: "int \<Rightarrow> int \<Rightarrow> int \<Rightarrow> 'px \<Rightarrow> bool"
  release_reports :: bool

text \<open>
  Modelled from the spec: the states of the missing loader class, after the state
  machine "Unloaded, Loaded, Resolved, Initialized, (Detecting)*, Released, Unloaded" of
  section 4.1. A state from \<open>Loaded\<close> on owns the module handle, a state from \<open>Resolved\<close>
  on holds the Entry Point Table as well, given by the names it maps. \<open>Detecting\<close> lasts
  for the duration of a detect call only and is not a state between operations.
\<close>

datatype 'px loader =
    Unloaded
  | Loaded "'px native_module"
  | Resolved "'px native_module" "string list"
  | Initialized "'px native_module" "string list"
  | Released "'px native_module" "string list"

text \<open>
  Modelled from the spec: the Entry Point Table that a state of the missing loader class
  holds, if it holds one.
\<close>

fun entry_point_table :: "'px loader \<Rightarrow> string list option" where
  "entry_point_table Unloaded = None"
| "entry_point_table (Loaded m) = None"
| "entry_point_table (Resolved m t) = Some t"
| "entry_point_table (Initialized m t) = Some t"
| "entry_point_table (Released m t) = Some t"

text \<open>
  Modelled from the spec: whether the missing loader class is in the state
  \<open>Initialized\<close>.
\<close>

fun is_Initialized :: "'px loader \<Rightarrow> bool" where
  "is_Initialized (Initialized m t) = True"
| "is_Initialized s = False"

text \<open>
  Modelled from the spec: \<open>Load(path)\<close> of the missing loader class. "Fails with
  ModuleNotFound if the path does not resolve to a loadable module"; "on success,
  transitions to loaded state"; "calling Load twice without an intervening Unload is a
  usage error (AlreadyLoaded)". The file system \<open>fs\<close> tells which paths resolve to a
  module.
\<close>

fun Load ::
  "(string \<Rightarrow> 'px native_module option) \<Rightarrow> string \<Rightarrow> 'px loader \<Rightarrow>
     (loader_error + unit) \<times> 'px loader" where
  "Load fs path Unloaded =
     (case fs path of
        None \<Rightarrow> (Inl ModuleNotFound, Unloaded)
      | Some m \<Rightarrow> (Inr (), Loaded m))"
| "Load fs path s = (Inl AlreadyLoaded, s)"

text \<open>
  Modelled from the spec: \<open>ResolveAll()\<close> of the missing loader class. "For each symbolic
  name in the fixed export list resolves a callable handle. Fails with
  SymbolNotFound(name) if any required symbol is absent; partial resolution is not a
  valid end state". The specification does not say what the call does without a loaded
  module or with a table already resolved: the model reports \<open>ModuleNotFound\<close> in the
  first case and keeps the table ("resolved once at load time, immutable after
  construction") in the second.
\<close>

fun ResolveAll :: "'px loader \<Rightarrow> (loader_error + unit) \<times> 'px loader" where
  "ResolveAll (Loaded m) =
     (case find (\<lambda>name. name \<notin> set (exported m)) required_symbols of
        Some name \<Rightarrow> (Inl (SymbolNotFound name), Loaded m)
      | None \<Rightarrow> (Inr (), Resolved m required_symbols))"
| "ResolveAll Unloaded = (Inl ModuleNotFound, Unloaded)"
| "ResolveAll s = (Inr (), s)"

text \<open>
  Modelled from the spec: \<open>Invoke<Init>(configPath, ...flags)\<close> of the missing loader
  class. It "calls the resolved initialization entry point" and "returns
  success/failure as reported by the module": \<open>Inr True\<close> and the step to \<open>Initialized\<close>,
  or \<open>Inr False\<close> and no step. The specification names no error for a call from another
  state than \<open>Resolved\<close>; the model refuses it with \<open>NotInitialized\<close>, as it does for the
  other \<open>Invoke\<close> operations.
\<close>

fun Invoke_Init ::
  "string \<Rightarrow> bool list \<Rightarrow> 'px loader \<Rightarrow> (loader_error + bool) \<times> 'px loader" where
  "Invoke_Init configPath flags (Resolved m t) =
     (if init_reports m configPath flags then (Inr True, Initialized m t)
      else (Inr False, Resolved m t))"
| "Invoke_Init configPath flags s = (Inl NotInitialized, s)"

text \<open>
  Modelled from the spec: \<open>Invoke<DetectFrame>(frameIndex, width, height, pixelBuffer)\<close>
  of the missing loader class. It "passes frame metadata and a raw pixel buffer to the
  module" and "returns success/failure" (\<open>DetectionFailed\<close> in the taxonomy); "calling
  any detection or release operation before Initialized is a usage error
  (NotInitialized)".
\<close>

fun Invoke_DetectFrame ::
  "int \<Rightarrow> int \<Rightarrow> int \<Rightarrow> 'px \<Rightarrow> 'px loader \<Rightarrow> (loader_error + unit) \<times> 'px loader" where
  "Invoke_DetectFrame frameIndex width height pixelBuffer (Initialized m t) =
     (if detect_reports m frameIndex width height pixelBuffer then (Inr (), Initialized m t)
      else (Inl DetectionFailed, Initialized m t))"
| "Invoke_DetectFrame frameIndex width height pixelBuffer s = (Inl NotInitialized, s)"

text \<open>
  Modelled from the spec: \<open>Invoke<Release>()\<close> of the missing loader class. It "calls the
  module's teardown entry point" and leads from \<open>Initialized\<close> to \<open>Released\<close>; before
  \<open>Initialized\<close> it is the usage error \<open>NotInitialized\<close>. After a teardown that the module
  reports as failed (\<open>ReleaseFailed\<close>) the model stays in \<open>Initialized\<close>; the
  specification does not say.
\<close>

fun Invoke_Release :: "'px loader \<Rightarrow> (loader_error + unit) \<times> 'px loader" where
  "Invoke_Release (Initialized m t) =
     (if release_reports m then (Inr (), Released m t)
      else (Inl ReleaseFailed, Initialized m t))"
| "Invoke_Release s = (Inl NotInitialized, s)"

text \<open>
  Modelled from the spec: \<open>Unload()\<close> of the missing loader class. It "releases the
  module handle. After unload, the instance returns to an unloaded state; all
  previously resolved callables become invalid". No error of the taxonomy belongs to
  it.
\<close>

definition Unload :: "'px loader \<Rightarrow> (loader_error + unit) \<times> 'px loader" where
  "Unload s = (Inr (), Unloaded)"

text \<open>
  Modelled from the spec: the round trip "Load, ResolveAll, Init, Release, Unload" of
  section 8 on the missing loader class, with the result of each of the five calls and
  the state at the end.
\<close>

definition full_cycle ::
  "(string \<Rightarrow> 'px native_module option) \<Rightarrow> string \<Rightarrow> string \<Rightarrow> bool list \<Rightarrow> 'px loader \<Rightarrow>
     ((loader_error + unit) \<times> (loader_error + unit) \<times> (loader_error + bool)
        \<times> (loader_error + unit) \<times> (loader_error + unit)) \<times> 'px loader" where
  "full_cycle fs path configPath flags s =
     (let (r1, s1) = Load fs path s;
          (r2, s2) = ResolveAll s1;
          (r3, s3) = Invoke_Init configPath flags s2;
          (r4, s4) = Invoke_Release s3;
          (r5, s5) = Unload s4
      in ((r1, r2, r3, r4, r5), s5))"

text \<open>
  Two modules and a file system for concrete runs of the loader: one module exports
  every required symbol, the other lacks \<open>detect-frame\<close>.
\<close>

definition complete_module :: "nat native_module" where
  "complete_module =
     \<lparr>exported = ''extra'' # required_symbols,
      init_reports = (\<lambda>configPath flags. configPath = ''hand_tracking_desktop_live.pbtxt''),
      detect_reports = (\<lambda>frameIndex width height pixelBuffer. 0 < width \<and> 0 < height),
      release_reports = True\<rparr>"

definition incomplete_module :: "nat native_module" where
  "incomplete_module = complete_module\<lparr>exported := remove1 ''detect-frame'' required_symbols\<rparr>"

definition example_fs :: "string \<Rightarrow> nat native_module option" where
  "example_fs path =
     (if path = ''./Mediapipe_Hand_Tracking.dll'' then Some complete_module
      else if path = ''./broken.dll'' then Some incomplete_module
      else None)"

section \<open>Properties of the label functions\<close>

lemma gesture_code_cases:
  fixes r :: int
  assumes "1 \<le> r" and "r \<le> 9"
  shows "r = 1 \<or> r = 2 \<or> r = 3 \<or> r = 4 \<or> r = 5 \<or> r = 6 \<or> r = 7 \<or> r = 8 \<or> r = 9"
  using assms by arith

lemma gesture_label_in_range:
  assumes "1 \<le> r" and "r \<le> 9"
  shows "GetGestureResult r \<in>
           {''One'', ''Two'', ''Three'', ''Four'', ''Five'', ''Six'', ''ThumbUp'', ''Ok'', ''Fist''}"
  using gesture_code_cases [OF assms] by (auto simp: GetGestureResult_def)

lemma gesture_label_out_of_range:
  assumes "r < 1 \<or> 9 < r"
  shows "GetGestureResult r = unknown_gesture"
  using assms by (auto simp: GetGestureResult_def)

lemma unknown_gesture_not_a_pose:
  "unknown_gesture \<notin>
     {''One'', ''Two'', ''Three'', ''Four'', ''Five'', ''Six'', ''ThumbUp'', ''Ok'', ''Fist''}"
  by (simp add: unknown_gesture_def)

text \<open>
  Claim C5. For every integer input, \<open>GetGestureResult\<close> returns one of the nine pose
  labels exactly when the input is in 1..9, with 1 giving "One", 2 "Two", 3 "Three",
  4 "Four", 5 "Five", 6 "Six", 7 "ThumbUp", 8 "Ok" and 9 "Fist"; every other integer,
  the sentinel -1 among them, gives the unknown-gesture label.
\<close>

theorem GetGestureResult_labels:
  "(GetGestureResult r \<in>
      {''One'', ''Two'', ''Three'', ''Four'', ''Five'', ''Six'', ''ThumbUp'', ''Ok'', ''Fist''}
        \<longleftrightarrow> 1 \<le> r \<and> r \<le> 9)
   \<and> GetGestureResult 1 = ''One'' \<and> GetGestureResult 2 = ''Two''
   \<and> GetGestureResult 3 = ''Three'' \<and> GetGestureResult 4 = ''Four''
   \<and> GetGestureResult 5 = ''Five'' \<and> GetGestureResult 6 = ''Six''
   \<and> GetGestureResult 7 = ''ThumbUp'' \<and> GetGestureResult 8 = ''Ok''
   \<and> GetGestureResult 9 = ''Fist''
   \<and> (r < 1 \<or> 9 < r \<longrightarrow> GetGestureResult r = unknown_gesture)
   \<and> GetGestureResult (- 1) = unknown_gesture"
proof -
  have iff: "GetGestureResult r \<in>
      {''One'', ''Two'', ''Three'', ''Four'', ''Five'', ''Six'', ''ThumbUp'', ''Ok'', ''Fist''}
        \<longleftrightarrow> 1 \<le> r \<and> r \<le> 9"
  proof (cases "1 \<le> r \<and> r \<le> 9")
    case True
    then show ?thesis using gesture_label_in_range by blast
  next
    case False
    then have "GetGestureResult r = unknown_gesture"
      by (intro gesture_label_out_of_range) arith
    with False show ?thesis using unknown_gesture_not_a_pose by simp
  qed
  have fixed: "GetGestureResult 1 = ''One''" "GetGestureResult 2 = ''Two''"
    "GetGestureResult 3 = ''Three''" "GetGestureResult 4 = ''Four''"
    "GetGestureResult 5 = ''Five''" "GetGestureResult 6 = ''Six''"
    "GetGestureResult 7 = ''ThumbUp''" "GetGestureResult 8 = ''Ok''"
    "GetGestureResult 9 = ''Fist''" "GetGestureResult (- 1) = unknown_gesture"
    by (simp_all add: GetGestureResult_def)
  from iff fixed gesture_label_out_of_range [of r] show ?thesis by blast
qed

theorem GetGestureResult_labels_witness:
  "GetGestureResult 7 \<in>
      {''One'', ''Two'', ''Three'', ''Four'', ''Five'', ''Six'', ''ThumbUp'', ''Ok'', ''Fist''}
   \<and> (12 < (1::int) \<or> (9::int) < 12) \<and> GetGestureResult 12 = unknown_gesture"
  using GetGestureResult_labels [of 7] GetGestureResult_labels [of 12] by simp

text \<open>
  Claim C6. For every integer input, \<open>GetArmUpAndDownResult\<close> returns the "arm raised"
  label exactly for 1, the "arm lowered" label exactly for 2, and the unknown label
  for every other integer, the sentinel -1 among them.
\<close>

theorem GetArmUpAndDownResult_labels:
  "(GetArmUpAndDownResult r = arm_raised \<longleftrightarrow> r = 1)
   \<and> (GetArmUpAndDownResult r = arm_lowered \<longleftrightarrow> r = 2)
   \<and> (r \<noteq> 1 \<and> r \<noteq> 2 \<longrightarrow> GetArmUpAndDownResult r = unknown_arm)
   \<and> GetArmUpAndDownResult (- 1) = unknown_arm"
  by (simp add: GetArmUpAndDownResult_def arm_raised_def arm_lowered_def unknown_arm_def)

theorem GetArmUpAndDownResult_labels_witness:
  "GetArmUpAndDownResult 1 = arm_raised \<and> GetArmUpAndDownResult 2 = arm_lowered
   \<and> ((0::int) \<noteq> 1 \<and> (0::int) \<noteq> 2) \<and> GetArmUpAndDownResult 0 = unknown_arm"
  using GetArmUpAndDownResult_labels [of 1] GetArmUpAndDownResult_labels [of 2]
    GetArmUpAndDownResult_labels [of 0] by simp

section \<open>Properties of the landmarks callback\<close>

lemma landmarks_loop_closed:
  assumes "length kps = 42" and "0 \<le> i" and "min count 42 \<le> int (length infos)"
  shows "\<exists>kps'. landmarks_loop cvt infos count i kps = Inr kps' \<and> length kps' = 42
           \<and> (\<forall>j<42. kps' ! j =
                 (if i \<le> int j \<and> int j < count then to_point cvt (infos ! j) else kps ! j))"
  using assms
proof (induction cvt infos count i kps rule: landmarks_loop.induct)
  case (1 cvt infos count i kps)
  show ?case
  proof (cases "i < count")
    case False
    then show ?thesis using "1.prems" by (auto simp: landmarks_loop.simps [of cvt infos count i kps])
  next
    case run: True
    show ?thesis
    proof (cases "i < 42")
      case True
      with run "1.prems" have inb: "i < int (length infos)" by simp
      let ?kps1 = "kps[nat i := to_point cvt (infos ! nat i)]"
      have a: "arg_at infos i = Inr (infos ! nat i)"
        using inb "1.prems" by (simp add: arg_at_def)
      have s: "kp_store kps i (to_point cvt (infos ! nat i)) = Inr ?kps1"
        using True "1.prems" by (simp add: kp_store_def)
      have "\<exists>kps'. landmarks_loop cvt infos count (i + 1) ?kps1 = Inr kps' \<and> length kps' = 42
           \<and> (\<forall>j<42. kps' ! j =
                 (if i + 1 \<le> int j \<and> int j < count then to_point cvt (infos ! j) else ?kps1 ! j))"
        using "1.IH"(1) [OF run True a s] "1.prems" by simp
      then obtain kps' where k: "landmarks_loop cvt infos count (i + 1) ?kps1 = Inr kps'"
        "length kps' = 42"
        "\<forall>j<42. kps' ! j =
                 (if i + 1 \<le> int j \<and> int j < count then to_point cvt (infos ! j) else ?kps1 ! j)"
        by blast
      have unf: "landmarks_loop cvt infos count i kps = Inr kps'"
        using run True a s k(1) by (simp add: landmarks_loop.simps [of cvt infos count i kps])
      have "kps' ! j = (if i \<le> int j \<and> int j < count then to_point cvt (infos ! j) else kps ! j)"
        if "j < 42" for j
      proof (cases "int j = i")
        case True
        then have "nat i = j" by simp
        with k(3) that True run "1.prems" show ?thesis by simp
      next
        case False
        then have "nat i \<noteq> j" using "1.prems" by auto
        with k(3) that False show ?thesis by auto
      qed
      with unf k(2) show ?thesis by blast
    next
      case False
      have "\<exists>kps'. landmarks_loop cvt infos count (i + 1) kps = Inr kps' \<and> length kps' = 42
           \<and> (\<forall>j<42. kps' ! j =
                 (if i + 1 \<le> int j \<and> int j < count then to_point cvt (infos ! j) else kps ! j))"
        using "1.IH"(2) [OF run False] "1.prems" by simp
      then obtain kps' where k: "landmarks_loop cvt infos count (i + 1) kps = Inr kps'"
        "length kps' = 42"
        "\<forall>j<42. kps' ! j =
                 (if i + 1 \<le> int j \<and> int j < count then to_point cvt (infos ! j) else kps ! j)"
        by blast
      have unf: "landmarks_loop cvt infos count i kps = Inr kps'"
        using run False k(1) by (simp add: landmarks_loop.simps [of cvt infos count i kps])
      have "kps' ! j = (if i \<le> int j \<and> int j < count then to_point cvt (infos ! j) else kps ! j)"
        if "j < 42" for j
        using k(3) that False by auto
      with unf k(2) show ?thesis by blast
    qed
  qed
qed

lemma landmarks_loop_fault:
  assumes "length kps = 42" and "0 \<le> i" and "landmarks_loop cvt infos count i kps = Inl e"
  shows "\<exists>j. e = ArgOutOfRange j \<and> 0 \<le> j \<and> j < min count 42 \<and> int (length infos) \<le> j"
  using assms
proof (induction cvt infos count i kps rule: landmarks_loop.induct)
  case (1 cvt infos count i kps)
  show ?case
  proof (cases "i < count")
    case False
    then show ?thesis using "1.prems" by (simp add: landmarks_loop.simps [of cvt infos count i kps])
  next
    case run: True
    show ?thesis
    proof (cases "i < 42")
      case True
      show ?thesis
      proof (cases "i < int (length infos)")
        case inb: True
        let ?kps1 = "kps[nat i := to_point cvt (infos ! nat i)]"
        have a: "arg_at infos i = Inr (infos ! nat i)"
          using inb "1.prems" by (simp add: arg_at_def)
        have s: "kp_store kps i (to_point cvt (infos ! nat i)) = Inr ?kps1"
          using True "1.prems" by (simp add: kp_store_def)
        have "landmarks_loop cvt infos count (i + 1) ?kps1 = Inl e"
          using run True a s "1.prems"(3) by (simp add: landmarks_loop.simps [of cvt infos count i kps])
        then show ?thesis using "1.IH"(1) [OF run True a s] "1.prems" by simp
      next
        case False
        then have "arg_at infos i = Inl (ArgOutOfRange i)" by (simp add: arg_at_def)
        then have "e = ArgOutOfRange i"
          using run True "1.prems"(3) by (simp add: landmarks_loop.simps [of cvt infos count i kps])
        with False run True "1.prems" show ?thesis by simp
      qed
    next
      case False
      have "landmarks_loop cvt infos count (i + 1) kps = Inl e"
        using run False "1.prems"(3) by (simp add: landmarks_loop.simps [of cvt infos count i kps])
      then show ?thesis using "1.IH"(2) [OF run False] "1.prems" by simp
    qed
  qed
qed


text \<open>
  Claim C9. Whatever \<open>count\<close> the landmarks callback is called with (non-negative or
  not, 21 and 42 or any other value), it stores only to the elements
  \<open>0 .. min(count, 42) - 1\<close> of the 42-element buffer \<open>handKPs\<close>: no store leaves the
  buffer (the only fault that the callback can end with is a read of its argument
  array beyond the elements passed), the elements from \<open>min(count, 42)\<close> on keep their
  value, and afterwards \<open>gValidKpCount\<close> is \<open>min(count, 42)\<close>, at most 42.
\<close>

theorem LandmarksCallBackImpl_stays_in_buffer:
  assumes "length (handKPs g) = 42"
  shows "(min count 42 \<le> int (length infos) \<longrightarrow>
            (\<exists>g'. LandmarksCallBackImpl cvt idx infos count g = Inr g'
               \<and> length (handKPs g') = 42
               \<and> (\<forall>j<42. handKPs g' ! j =
                     (if int j < min count 42 then to_point cvt (infos ! j) else handKPs g ! j))
               \<and> gValidKpCount g' = min count 42 \<and> gValidKpCount g' \<le> 42))
       \<and> (\<forall>e. LandmarksCallBackImpl cvt idx infos count g = Inl e \<longrightarrow>
            (\<exists>j. e = ArgOutOfRange j \<and> 0 \<le> j \<and> j < min count 42 \<and> int (length infos) \<le> j))"
proof (intro conjI impI allI)
  assume len: "min count 42 \<le> int (length infos)"
  obtain kps' where k: "landmarks_loop cvt infos count 0 (handKPs g) = Inr kps'"
    "length kps' = 42"
    "\<forall>j<42. kps' ! j =
       (if 0 \<le> int j \<and> int j < count then to_point cvt (infos ! j) else handKPs g ! j)"
    using landmarks_loop_closed [OF assms _ len, of 0 cvt] by auto
  let ?g' = "g\<lparr>gValidKpCount := min count 42, handKPs := kps'\<rparr>"
  have "LandmarksCallBackImpl cvt idx infos count g = Inr ?g'"
    using k(1) by (simp add: LandmarksCallBackImpl_def Let_def min_def)
  moreover have "\<forall>j<42. handKPs ?g' ! j =
       (if int j < min count 42 then to_point cvt (infos ! j) else handKPs g ! j)"
    using k(3) by auto
  ultimately show "\<exists>g'. LandmarksCallBackImpl cvt idx infos count g = Inr g'
               \<and> length (handKPs g') = 42
               \<and> (\<forall>j<42. handKPs g' ! j =
                     (if int j < min count 42 then to_point cvt (infos ! j) else handKPs g ! j))
               \<and> gValidKpCount g' = min count 42 \<and> gValidKpCount g' \<le> 42"
    using k(2) by (intro exI [of _ ?g']) simp
next
  fix e
  assume "LandmarksCallBackImpl cvt idx infos count g = Inl e"
  then have "landmarks_loop cvt infos count 0 (handKPs g) = Inl e"
    by (simp add: LandmarksCallBackImpl_def Let_def split: sum.splits if_splits)
  then show "\<exists>j. e = ArgOutOfRange j \<and> 0 \<le> j \<and> j < min count 42 \<and> int (length infos) \<le> j"
    using landmarks_loop_fault [OF assms, of 0 cvt infos count e] by simp
qed

theorem LandmarksCallBackImpl_stays_in_buffer_witness:
  "length (handKPs initial_globals) = 42
   \<and> min 63 42 \<le> int (length (replicate 63 (PoseInfo (7::int) 9)))
   \<and> (\<exists>g'. LandmarksCallBackImpl (\<lambda>v. v) 5 (replicate 63 (PoseInfo 7 9)) 63 initial_globals = Inr g'
         \<and> length (handKPs g') = 42 \<and> handKPs g' ! 41 = Point 7 9 \<and> gValidKpCount g' = 42)"
proof -
  have len: "length (handKPs initial_globals) = 42"
    by (simp add: initial_globals_def)
  have arg: "min 63 42 \<le> int (length (replicate 63 (PoseInfo (7::int) 9)))"
    by simp
  from LandmarksCallBackImpl_stays_in_buffer [OF len, of 63 "replicate 63 (PoseInfo 7 9)" "\<lambda>v. v" 5] arg
  obtain g' where g': "LandmarksCallBackImpl (\<lambda>v. v) 5 (replicate 63 (PoseInfo 7 9)) 63 initial_globals = Inr g'"
    "length (handKPs g') = 42"
    "\<forall>j<42. handKPs g' ! j =
        (if int j < min 63 42 then to_point (\<lambda>v. v) (replicate 63 (PoseInfo 7 9) ! j)
         else handKPs initial_globals ! j)"
    "gValidKpCount g' = min 63 42"
    by blast
  from g'(3) have "handKPs g' ! 41 = Point 7 9"
    by (simp add: to_point_def)
  with len arg g' show ?thesis by simp
qed

section \<open>Properties of the drawing function\<close>

lemma draw_circles_closed:
  assumes "0 \<le> i" and "n \<le> int (length kps)"
  shows "draw_circles kps n i img =
           Inr (img @ map (\<lambda>j. Circle (kps ! j) 6 (0, 0, 255) (- 1)) [nat i..<nat n])"
  using assms
proof (induction kps n i img rule: draw_circles.induct)
  case (1 kps n i img)
  show ?case
  proof (cases "i < n")
    case False
    then show ?thesis by (simp add: draw_circles.simps [of kps n i img])
  next
    case True
    have at: "kp_at kps i = Inr (kps ! nat i)"
      using True "1.prems" by (simp add: kp_at_def)
    have upt: "[nat i..<nat n] = nat i # [nat (i + 1)..<nat n]"
      using True "1.prems" by (simp add: upt_conv_Cons nat_add_distrib)
    have "draw_circles kps n i img =
            draw_circles kps n (i + 1) (img @ [Circle (kps ! nat i) 6 (0, 0, 255) (- 1)])"
      using True at by (simp add: draw_circles.simps [of kps n i img])
    also have "\<dots> = Inr ((img @ [Circle (kps ! nat i) 6 (0, 0, 255) (- 1)])
                       @ map (\<lambda>j. Circle (kps ! j) 6 (0, 0, 255) (- 1)) [nat (i + 1)..<nat n])"
      using "1.IH" [OF True at] "1.prems" by simp
    finally show ?thesis by (simp add: upt)
  qed
qed

lemma hand_lines_range:
  "\<forall>ab\<in>set hand_lines. 0 \<le> fst ab \<and> fst ab \<le> 20 \<and> 0 \<le> snd ab \<and> snd ab \<le> 20"
  by (simp add: hand_lines_def)

lemma draw_lines_closed:
  assumes "0 \<le> offset" and "offset + 20 < int (length kps)"
    and "\<forall>ab\<in>set es. 0 \<le> fst ab \<and> fst ab \<le> 20 \<and> 0 \<le> snd ab \<and> snd ab \<le> 20"
  shows "draw_lines kps offset es img =
           Inr (img @ map (\<lambda>ab. Line (kps ! nat (offset + fst ab)) (kps ! nat (offset + snd ab))
                                   (0, 255, 0) 2) es)"
  using assms
proof (induction es arbitrary: img)
  case Nil
  then show ?case by simp
next
  case (Cons ab es)
  have "kp_at kps (offset + fst ab) = Inr (kps ! nat (offset + fst ab))"
    and "kp_at kps (offset + snd ab) = Inr (kps ! nat (offset + snd ab))"
    using Cons.prems by (simp_all add: kp_at_def)
  then have "draw_line kps offset ab img =
      Inr (img @ [Line (kps ! nat (offset + fst ab)) (kps ! nat (offset + snd ab)) (0, 255, 0) 2])"
    by (simp add: draw_line_def)
  then show ?case using Cons.IH Cons.prems by simp
qed

lemma draw_hands_closed:
  assumes "0 \<le> i" and "offset = 21 * i" and "21 * handCount \<le> int (length kps)"
  shows "draw_hands kps handCount i offset img =
           Inr (img @ concat (map (\<lambda>h. map (\<lambda>ab. Line (kps ! nat (21 * int h + fst ab))
                                                     (kps ! nat (21 * int h + snd ab))
                                                     (0, 255, 0) 2) hand_lines)
                                [nat i..<nat handCount]))"
  using assms
proof (induction kps handCount i offset img rule: draw_hands.induct)
  case (1 kps handCount i offset img)
  show ?case
  proof (cases "i < handCount")
    case False
    then show ?thesis by (simp add: draw_hands.simps [of kps handCount i offset img])
  next
    case True
    let ?one = "map (\<lambda>ab. Line (kps ! nat (offset + fst ab)) (kps ! nat (offset + snd ab))
                             (0, 255, 0) 2) hand_lines"
    have body: "draw_lines kps offset hand_lines img = Inr (img @ ?one)"
      using True "1.prems" by (intro draw_lines_closed hand_lines_range) simp_all
    have upt: "[nat i..<nat handCount] = nat i # [nat (i + 1)..<nat handCount]"
      using True "1.prems" by (simp add: upt_conv_Cons nat_add_distrib)
    have off: "offset = 21 * int (nat i)"
      using "1.prems" by simp
    have "draw_hands kps handCount i offset img =
            draw_hands kps handCount (i + 1) (offset + 21) (img @ ?one)"
      using True body by (simp add: draw_hands.simps [of kps handCount i offset img])
    also have "\<dots> = Inr ((img @ ?one)
        @ concat (map (\<lambda>h. map (\<lambda>ab. Line (kps ! nat (21 * int h + fst ab))
                                        (kps ! nat (21 * int h + snd ab))
                                        (0, 255, 0) 2) hand_lines)
                   [nat (i + 1)..<nat handCount]))"
      using "1.IH" [OF True body] "1.prems" by simp
    finally show ?thesis unfolding upt using off by simp
  qed
qed

lemma c_div_nonneg: "0 \<le> a \<Longrightarrow> c_div a 21 = a div 21"
  by (simp add: c_div_def)


text \<open>
  Claim C10. When \<open>0 \<le> gValidKpCount \<le> 42\<close>, every access of \<open>DrawHandKeyponts\<close> to
  the 42-element buffer is within its bounds: the function ends without a fault, the
  circles are drawn at the elements \<open>0 .. gValidKpCount - 1\<close>, and the lines are drawn
  for \<open>gValidKpCount / 21\<close> hands (at most two), with the offsets 0 and 21 and the
  elements \<open>offset + 0 .. offset + 20\<close>, none beyond 41.
\<close>

theorem DrawHandKeyponts_in_bounds:
  assumes "0 \<le> gValidKpCount g" and "gValidKpCount g \<le> 42" and "length (handKPs g) = 42"
  shows "DrawHandKeyponts g img =
           Inr (img
                @ map (\<lambda>i. Circle (handKPs g ! i) 6 (0, 0, 255) (- 1)) [0..<nat (gValidKpCount g)]
                @ concat (map (\<lambda>h. map (\<lambda>ab. Line (handKPs g ! nat (21 * int h + fst ab))
                                                  (handKPs g ! nat (21 * int h + snd ab))
                                                  (0, 255, 0) 2) hand_lines)
                            [0..<nat (c_div (gValidKpCount g) 21)]))
         \<and> (\<forall>i\<in>set [0..<nat (gValidKpCount g)]. int i < gValidKpCount g \<and> i < length (handKPs g))
         \<and> c_div (gValidKpCount g) 21 = gValidKpCount g div 21
         \<and> c_div (gValidKpCount g) 21 \<le> 2
         \<and> (\<forall>h\<in>set [0..<nat (c_div (gValidKpCount g) 21)].
               (21 * int h = 0 \<or> 21 * int h = 21)
               \<and> (\<forall>ab\<in>set hand_lines.
                     0 \<le> 21 * int h + fst ab \<and> 21 * int h + fst ab \<le> 21 * int h + 20
                     \<and> 0 \<le> 21 * int h + snd ab \<and> 21 * int h + snd ab \<le> 21 * int h + 20
                     \<and> 21 * int h + 20 \<le> 41
                     \<and> nat (21 * int h + fst ab) < length (handKPs g)
                     \<and> nat (21 * int h + snd ab) < length (handKPs g)))"
proof -
  let ?n = "gValidKpCount g"
  have cdiv: "c_div ?n 21 = ?n div 21"
    using assms(1) by (rule c_div_nonneg)
  have two: "?n div 21 \<le> 2"
    using assms(2) by simp
  have fits: "21 * (?n div 21) \<le> int (length (handKPs g))"
    using assms by simp
  have circles: "draw_circles (handKPs g) ?n 0 img =
      Inr (img @ map (\<lambda>i. Circle (handKPs g ! i) 6 (0, 0, 255) (- 1)) [0..<nat ?n])"
    using draw_circles_closed [of 0 ?n "handKPs g" img] assms by simp
  have run: "DrawHandKeyponts g img =
           Inr (img
                @ map (\<lambda>i. Circle (handKPs g ! i) 6 (0, 0, 255) (- 1)) [0..<nat ?n]
                @ concat (map (\<lambda>h. map (\<lambda>ab. Line (handKPs g ! nat (21 * int h + fst ab))
                                                  (handKPs g ! nat (21 * int h + snd ab))
                                                  (0, 255, 0) 2) hand_lines)
                            [0..<nat (c_div ?n 21)]))"
    using draw_hands_closed [of 0 0 "?n div 21" "handKPs g"] fits
    by (simp add: DrawHandKeyponts_def circles cdiv)
  have idx: "\<forall>i\<in>set [0..<nat ?n]. int i < ?n \<and> i < length (handKPs g)"
    using assms by auto
  have hands: "(21 * int h = 0 \<or> 21 * int h = 21)
               \<and> (\<forall>ab\<in>set hand_lines.
                     0 \<le> 21 * int h + fst ab \<and> 21 * int h + fst ab \<le> 21 * int h + 20
                     \<and> 0 \<le> 21 * int h + snd ab \<and> 21 * int h + snd ab \<le> 21 * int h + 20
                     \<and> 21 * int h + 20 \<le> 41
                     \<and> nat (21 * int h + fst ab) < length (handKPs g)
                     \<and> nat (21 * int h + snd ab) < length (handKPs g))"
    if "h \<in> set [0..<nat (c_div ?n 21)]" for h
  proof -
    from that two cdiv have "h < 2" by simp
    then have h: "h = 0 \<or> h = 1" by arith
    then have "21 * int h = 0 \<or> 21 * int h = 21" by auto
    moreover have "0 \<le> 21 * int h + fst ab \<and> 21 * int h + fst ab \<le> 21 * int h + 20
                     \<and> 0 \<le> 21 * int h + snd ab \<and> 21 * int h + snd ab \<le> 21 * int h + 20
                     \<and> 21 * int h + 20 \<le> 41
                     \<and> nat (21 * int h + fst ab) < length (handKPs g)
                     \<and> nat (21 * int h + snd ab) < length (handKPs g)"
      if "ab \<in> set hand_lines" for ab
      using hand_lines_range that h assms(3) by auto
    ultimately show ?thesis by blast
  qed
  from run idx cdiv two hands show ?thesis
    by (simp only: cdiv) blast
qed

theorem DrawHandKeyponts_in_bounds_witness:
  "0 \<le> gValidKpCount (initial_globals\<lparr>gValidKpCount := 42\<rparr>)
   \<and> gValidKpCount (initial_globals\<lparr>gValidKpCount := 42\<rparr>) \<le> 42
   \<and> length (handKPs (initial_globals\<lparr>gValidKpCount := 42\<rparr>)) = 42
   \<and> 41 \<in> set [0..<nat (gValidKpCount (initial_globals\<lparr>gValidKpCount := 42\<rparr>))]
   \<and> 1 \<in> set [0..<nat (c_div (gValidKpCount (initial_globals\<lparr>gValidKpCount := 42\<rparr>)) 21)]
   \<and> (19, 20) \<in> set hand_lines
   \<and> (\<exists>img. DrawHandKeyponts (initial_globals\<lparr>gValidKpCount := 42\<rparr>) [] = Inr img
          \<and> length img = 84)
   \<and> 21 * int 1 + snd (19 :: int, 20 :: int) \<le> 41"
proof -
  let ?g = "initial_globals\<lparr>gValidKpCount := 42\<rparr>"
  have pre: "0 \<le> gValidKpCount ?g" "gValidKpCount ?g \<le> 42" "length (handKPs ?g) = 42"
    by (simp_all add: initial_globals_def)
  have d: "c_div 42 21 = 2"
    by (simp add: c_div_def)
  have l: "(19, 20) \<in> set hand_lines" "length hand_lines = 21"
    by (simp_all add: hand_lines_def)
  note inst = DrawHandKeyponts_in_bounds [OF pre, of "[]"]
  from inst have "DrawHandKeyponts ?g [] =
      Inr ([] @ map (\<lambda>i. Circle (handKPs ?g ! i) 6 (0, 0, 255) (- 1)) [0..<nat (gValidKpCount ?g)]
                @ concat (map (\<lambda>h. map (\<lambda>ab. Line (handKPs ?g ! nat (21 * int h + fst ab))
                                                  (handKPs ?g ! nat (21 * int h + snd ab))
                                                  (0, 255, 0) 2) hand_lines)
                            [0..<nat (c_div (gValidKpCount ?g) 21)]))"
    by blast
  then have "\<exists>img. DrawHandKeyponts ?g [] = Inr img \<and> length img = 84"
    by (simp add: d l(2) length_concat comp_def sum_list_triv)
  with pre d l show ?thesis by simp
qed

section \<open>Properties of the capture loop\<close>

lemma capture_loop_calls:
  assumes "map fst (detect_calls s) = map int [0..<length (detect_calls s)]"
    and "image_index s = int (length (detect_calls s))"
  shows "map fst (detect_calls (fst (capture_loop cvt detect camera s))) =
           map int [0..<length (detect_calls (fst (capture_loop cvt detect camera s)))]"
  using assms
proof (induction camera arbitrary: s)
  case Nil
  then show ?case by simp
next
  case (Cons c rest)
  show ?case
    using Cons.prems
    by (auto simp: Let_def split: sum.splits intro!: Cons.IH)
qed

text \<open>
  Claim C8. In the capture loop the frame index given to the detect-frame entry point
  starts at 0 and each later call receives the index of the call before it plus one:
  the indices of the calls made in a run are \<open>0, 1, 2, ...\<close> in this order.
\<close>

theorem detect_frame_index_counts_up:
  "map fst (detect_calls (fst (HandTrackingDllTest_loop cvt detect camera g m))) =
     map int [0..<length (detect_calls (fst (HandTrackingDllTest_loop cvt detect camera g m)))]"
  unfolding HandTrackingDllTest_loop_def
  by (rule capture_loop_calls) simp_all

lemma example_run_calls:
  "length (detect_calls (fst (HandTrackingDllTest_loop (\<lambda>v. v) example_detect example_camera
      initial_globals 0))) = 3"
  by (simp add: HandTrackingDllTest_loop_def example_camera_def example_detect_def
      initial_globals_def LandmarksCallBackImpl_def GestureResultCallBackImpl_def
      landmarks_loop.simps gesture_loop.simps arg_at_def kp_store_def to_point_def
      DrawHandKeyponts_def draw_circles.simps draw_hands.simps kp_at_def c_div_def
      INT_MAX_def Let_def)

theorem detect_frame_index_counts_up_witness:
  "map fst (detect_calls (fst (HandTrackingDllTest_loop (\<lambda>v. v) example_detect example_camera
      initial_globals 0))) = [0, 1, 2]"
  using detect_frame_index_counts_up [of "\<lambda>v. v" example_detect example_camera initial_globals 0]
  by (simp add: example_run_calls upt_rec)

section \<open>Properties of the Module Loader\<close>

lemma ResolveAll_missing:
  assumes "\<exists>name\<in>set required_symbols. name \<notin> set (exported m)"
  shows "\<exists>name. ResolveAll (Loaded m) = (Inl (SymbolNotFound name), Loaded m)
           \<and> name \<in> set required_symbols \<and> name \<notin> set (exported m)"
proof -
  from assms obtain name where
    f: "find (\<lambda>name. name \<notin> set (exported m)) required_symbols = Some name"
    by (cases "find (\<lambda>name. name \<notin> set (exported m)) required_symbols")
       (auto simp: find_None_iff)
  then have "name \<in> set required_symbols \<and> name \<notin> set (exported m)"
    by (auto simp: find_Some_iff)
  with f show ?thesis by simp
qed

lemma ResolveAll_complete:
  assumes "\<forall>name\<in>set required_symbols. name \<in> set (exported m)"
  shows "ResolveAll (Loaded m) = (Inr (), Resolved m required_symbols)"
proof -
  from assms have "find (\<lambda>name. name \<notin> set (exported m)) required_symbols = None"
    by (simp add: find_None_iff)
  then show ?thesis by simp
qed

text \<open>
  Claim C3. For every loaded module, if a symbol of the fixed required export list is
  absent, \<open>ResolveAll\<close> fails with \<open>SymbolNotFound\<close> naming a required symbol that the
  module lacks, and the loader is left without an Entry Point Table: init, detection
  and release are refused and a second \<open>ResolveAll\<close> fails in the same way, so the loader
  is unusable until it is reloaded. If no required symbol is absent, \<open>ResolveAll\<close>
  succeeds with the table of all required symbols. There is no state in between.
\<close>

theorem ResolveAll_all_or_nothing:
  "((\<exists>name\<in>set required_symbols. name \<notin> set (exported m)) \<longrightarrow>
      (\<exists>name. ResolveAll (Loaded m) = (Inl (SymbolNotFound name), Loaded m)
         \<and> name \<in> set required_symbols \<and> name \<notin> set (exported m))
      \<and> entry_point_table (snd (ResolveAll (Loaded m))) = None
      \<and> fst (Invoke_Init configPath flags (snd (ResolveAll (Loaded m)))) = Inl NotInitialized
      \<and> fst (Invoke_DetectFrame frameIndex width height pixelBuffer (snd (ResolveAll (Loaded m))))
           = Inl NotInitialized
      \<and> fst (Invoke_Release (snd (ResolveAll (Loaded m)))) = Inl NotInitialized
      \<and> ResolveAll (snd (ResolveAll (Loaded m))) = ResolveAll (Loaded m))
   \<and> ((\<forall>name\<in>set required_symbols. name \<in> set (exported m)) \<longrightarrow>
        ResolveAll (Loaded m) = (Inr (), Resolved m required_symbols)
        \<and> entry_point_table (snd (ResolveAll (Loaded m))) = Some required_symbols)"
proof (intro conjI impI)
  assume "\<exists>name\<in>set required_symbols. name \<notin> set (exported m)"
  from ResolveAll_missing [OF this] obtain name where
    r: "ResolveAll (Loaded m) = (Inl (SymbolNotFound name), Loaded m)"
    and n: "name \<in> set required_symbols" "name \<notin> set (exported m)" by blast
  from r n show "\<exists>name. ResolveAll (Loaded m) = (Inl (SymbolNotFound name), Loaded m)
         \<and> name \<in> set required_symbols \<and> name \<notin> set (exported m)" by blast
  from r show "entry_point_table (snd (ResolveAll (Loaded m))) = None" by simp
  from r show "fst (Invoke_Init configPath flags (snd (ResolveAll (Loaded m)))) = Inl NotInitialized"
    by simp
  from r show "fst (Invoke_DetectFrame frameIndex width height pixelBuffer
      (snd (ResolveAll (Loaded m)))) = Inl NotInitialized" by simp
  from r show "fst (Invoke_Release (snd (ResolveAll (Loaded m)))) = Inl NotInitialized" by simp
  from r show "ResolveAll (snd (ResolveAll (Loaded m))) = ResolveAll (Loaded m)"
    by (simp only: snd_conv)
next
  assume a: "\<forall>name\<in>set required_symbols. name \<in> set (exported m)"
  from ResolveAll_complete [OF a]
  show "ResolveAll (Loaded m) = (Inr (), Resolved m required_symbols)" .
  from ResolveAll_complete [OF a]
  show "entry_point_table (snd (ResolveAll (Loaded m))) = Some required_symbols" by simp
qed

lemma incomplete_missing: "''detect-frame'' \<in> set required_symbols"
  "''detect-frame'' \<notin> set (exported incomplete_module)"
  by (simp_all add: incomplete_module_def complete_module_def required_symbols_def)

lemma complete_has_all: "\<forall>name\<in>set required_symbols. name \<in> set (exported complete_module)"
  by (simp add: complete_module_def)

theorem ResolveAll_all_or_nothing_witness:
  "(\<exists>name\<in>set required_symbols. name \<notin> set (exported incomplete_module))
   \<and> ResolveAll (Loaded incomplete_module) = (Inl (SymbolNotFound ''detect-frame''), Loaded incomplete_module)
   \<and> set required_symbols \<subseteq> set (exported complete_module)
   \<and> ResolveAll (Loaded complete_module) = (Inr (), Resolved complete_module required_symbols)"
proof -
  have miss: "\<exists>name\<in>set required_symbols. name \<notin> set (exported incomplete_module)"
    using incomplete_missing by blast
  have first: "ResolveAll (Loaded incomplete_module)
      = (Inl (SymbolNotFound ''detect-frame''), Loaded incomplete_module)"
    by (simp add: incomplete_module_def complete_module_def required_symbols_def)
  from ResolveAll_all_or_nothing [of complete_module] complete_has_all
  have "ResolveAll (Loaded complete_module) = (Inr (), Resolved complete_module required_symbols)"
    by blast
  moreover from ResolveAll_all_or_nothing [of incomplete_module] miss
  have "\<exists>name. ResolveAll (Loaded incomplete_module) = (Inl (SymbolNotFound name), Loaded incomplete_module)"
    by blast
  ultimately show ?thesis using miss first complete_has_all by blast
qed

text \<open>
  Claim C4. In every state of the Module Loader other than \<open>Initialized\<close>, a call of the
  detection or of the release operation fails with \<open>NotInitialized\<close> and changes
  nothing; this holds after a failed init as well, which leaves the loader outside
  \<open>Initialized\<close>.
\<close>

theorem not_Initialized_refuses:
  assumes "\<not> is_Initialized s"
  shows "Invoke_DetectFrame frameIndex width height pixelBuffer s = (Inl NotInitialized, s)
         \<and> Invoke_Release s = (Inl NotInitialized, s)
         \<and> (fst (Invoke_Init configPath flags s) \<noteq> Inr True \<longrightarrow>
               \<not> is_Initialized (snd (Invoke_Init configPath flags s))
               \<and> fst (Invoke_DetectFrame frameIndex width height pixelBuffer
                        (snd (Invoke_Init configPath flags s))) = Inl NotInitialized
               \<and> fst (Invoke_Release (snd (Invoke_Init configPath flags s))) = Inl NotInitialized)"
  using assms by (cases s) auto

theorem not_Initialized_refuses_witness:
  "\<not> is_Initialized (Resolved complete_module required_symbols)
   \<and> fst (Invoke_Init ''missing.pbtxt'' [] (Resolved complete_module required_symbols)) \<noteq> Inr True
   \<and> Invoke_DetectFrame 0 100 100 (0::nat) (Resolved complete_module required_symbols)
       = (Inl NotInitialized, Resolved complete_module required_symbols)
   \<and> fst (Invoke_Release (snd (Invoke_Init ''missing.pbtxt'' []
            (Resolved complete_module required_symbols)))) = Inl NotInitialized"
proof -
  have a: "\<not> is_Initialized (Resolved complete_module required_symbols)" by simp
  have b: "fst (Invoke_Init ''missing.pbtxt'' [] (Resolved complete_module required_symbols)) \<noteq> Inr True"
    by (simp add: complete_module_def)
  from not_Initialized_refuses [OF a, of 0 100 100 0 "''missing.pbtxt''" "[]"] a b
  show ?thesis by blast
qed

text \<open>
  Claim C7. The full cycle Load, ResolveAll, Init, Release, Unload leaves every loader
  instance in the state \<open>Unloaded\<close>, and a second full cycle on the same instance gives
  the results of the first; when the module is found, exports every required symbol
  and reports success for init and release, all five calls of both cycles succeed.
\<close>

theorem full_cycle_reloadable:
  "snd (full_cycle fs path configPath flags s) = Unloaded
   \<and> full_cycle fs path configPath flags (snd (full_cycle fs path configPath flags Unloaded))
       = full_cycle fs path configPath flags Unloaded
   \<and> (fs path = Some m \<and> (\<forall>name\<in>set required_symbols. name \<in> set (exported m))
        \<and> init_reports m configPath flags \<and> release_reports m \<longrightarrow>
        full_cycle fs path configPath flags Unloaded
          = ((Inr (), Inr (), Inr True, Inr (), Inr ()), Unloaded))"
proof -
  have returns: "snd (full_cycle fs path configPath flags s) = Unloaded" for s :: "'a loader"
    by (simp add: full_cycle_def Unload_def split: prod.splits)
  have ok: "full_cycle fs path configPath flags Unloaded
          = ((Inr (), Inr (), Inr True, Inr (), Inr ()), Unloaded)"
    if "fs path = Some m" "\<forall>name\<in>set required_symbols. name \<in> set (exported m)"
      "init_reports m configPath flags" "release_reports m"
    using that ResolveAll_complete [OF that(2)]
    by (simp add: full_cycle_def Unload_def)
  from returns [of s] returns [of Unloaded] ok show ?thesis by simp
qed

theorem full_cycle_reloadable_witness:
  "example_fs ''./Mediapipe_Hand_Tracking.dll'' = Some complete_module
   \<and> set required_symbols \<subseteq> set (exported complete_module)
   \<and> init_reports complete_module ''hand_tracking_desktop_live.pbtxt'' []
   \<and> release_reports complete_module
   \<and> full_cycle example_fs ''./Mediapipe_Hand_Tracking.dll'' ''hand_tracking_desktop_live.pbtxt'' []
        (snd (full_cycle example_fs ''./Mediapipe_Hand_Tracking.dll''
                ''hand_tracking_desktop_live.pbtxt'' [] Unloaded))
       = ((Inr (), Inr (), Inr True, Inr (), Inr ()), Unloaded)"
proof -
  have a: "example_fs ''./Mediapipe_Hand_Tracking.dll'' = Some complete_module"
    by (simp add: example_fs_def)
  have b: "init_reports complete_module ''hand_tracking_desktop_live.pbtxt'' []"
    "release_reports complete_module"
    by (simp_all add: complete_module_def)
  from full_cycle_reloadable [of example_fs "''./Mediapipe_Hand_Tracking.dll''"
      "''hand_tracking_desktop_live.pbtxt''" "[]" Unloaded complete_module] a b complete_has_all
  show ?thesis by (simp add: subset_iff)
qed

end
